theory Spec2Isabelle
  imports Main "HOL-Library.Sublist"
begin

section \<open>The backend of the App Configuration demo\<close>

text \<open>
  The Express backend authenticates one hardcoded user with a JSON Web Token and serves
  three settings of an Azure App Configuration store, whose connection string it reads
  from a Key Vault secret on every request. The handlers are modelled as functions of the
  request, the clock and everything outside the process (\<open>env\<close>); each returns the HTTP
  response together with the calls it made to the two stores, in order. The handlers see
  requests whose JSON body \<open>express.json()\<close> has parsed; an error that a middleware passes
  on goes to \<open>errorMiddleware\<close>.
\<close>

subsection \<open>Values and errors\<close>

text \<open>A JavaScript \<open>Error\<close>, with its \<open>message\<close>.\<close>

datatype error = Error (message: string)

text \<open>
  A field of the parsed JSON body: absent (\<open>Undefined\<close>), \<open>null\<close>, a boolean, a number,
  a string, or an object or array.
\<close>

datatype jsval = Undefined | Null | Bool bool | Num int | Str string | Obj

text \<open>JavaScript truthiness, as \<open>!username\<close> reads it.\<close>

fun truthy :: "jsval \<Rightarrow> bool" where
  "truthy Undefined = False"
| "truthy Null = False"
| "truthy (Bool b) = b"
| "truthy (Num n) = (n \<noteq> 0)"
| "truthy (Str s) = (s \<noteq> [])"
| "truthy Obj = True"

text \<open>\<open>xs[i]\<close>: \<open>undefined\<close> (here \<open>None\<close>) beyond the end of the array.\<close>

definition index :: "'a list \<Rightarrow> nat \<Rightarrow> 'a option" where
  "index xs i = (if i < length xs then Some (xs ! i) else None)"

subsection \<open>Users and tokens\<close>

record identity =
  user_id :: int
  username :: string
  name :: string

record user = identity +
  password :: string

text \<open>
  A JSON object, as the list of its properties; a property that is absent reads as
  \<open>undefined\<close>.
\<close>

type_synonym payload = "(string \<times> jsval) list"

definition property :: "payload \<Rightarrow> string \<Rightarrow> jsval" where
  "property p n = (case map_of p n of None \<Rightarrow> Undefined | Some v \<Rightarrow> v)"

text \<open>The mock user database.\<close>

definition users :: "user list" where
  "users =
     [\<lparr>user_id = 1,
       username = ''demo@ltimindtree.com'',
       name = ''Demo User'',
       password = ''$2b$10$rOzWbkQ9p5Fy8.QqZ6m7CeHPFZGVN1wR8PjHgF5nC2QxGkY7mKfO2''\<rparr>]"

text \<open>
  The \<open>jsonwebtoken\<close> package is not part of the repository; \<open>jwt_sign\<close> and
  \<open>jwt_verify\<close> follow its \<open>sign\<close> and \<open>verify\<close> as the code calls them, with a
  string secret and no options to \<open>verify\<close>. A word of the header is modelled
  symbolically: \<open>Jwt p k\<close> is a token that carries the JSON object \<open>p\<close> and an HMAC
  signature (HS256, HS384 or HS512) made with the key \<open>k\<close>; \<open>Opaque s\<close> is a word that
  is no signed token (not three parts, not decodable, unsigned, or of another algorithm),
  which \<open>verify\<close> reports as an error. Signed tokens whose payload is not a JSON object
  are not represented, and numbers are integers.

  The package keeps time in whole seconds. \<open>sign\<close> copies the payload and stamps
  \<open>iat = Math.floor(Date.now() / 1000)\<close> and \<open>exp = iat + expiresIn\<close>. \<open>verify\<close>
  checks the signature against the key; then \<open>nbf\<close>, if the payload has one, which must
  be a number not after the clock; then \<open>exp\<close>, if the payload has one, which must be a
  number after the clock; it checks nothing else of the payload, which it hands on. The
  clock \<open>now\<close> is \<open>Date.now()\<close>, in milliseconds.
\<close>

datatype token = Jwt (payload: payload) (signed_with: string) | Opaque string

definition jwt_sign :: "payload \<Rightarrow> string \<Rightarrow> nat \<Rightarrow> nat \<Rightarrow> token" where
  "jwt_sign p secretOrPrivateKey expiresIn now =
     (let timestamp = now div 1000 in
      Jwt (p @ [(''iat'', Num (int timestamp)),
                (''exp'', Num (int (timestamp + expiresIn)))])
          secretOrPrivateKey)"

fun nbf_error :: "jsval \<Rightarrow> int \<Rightarrow> error option" where
  "nbf_error Undefined clockTimestamp = None"
| "nbf_error (Num nbf) clockTimestamp =
     (if nbf > clockTimestamp then Some (Error ''jwt not active'') else None)"
| "nbf_error v clockTimestamp = Some (Error ''invalid nbf value'')"

fun exp_error :: "jsval \<Rightarrow> int \<Rightarrow> error option" where
  "exp_error Undefined clockTimestamp = None"
| "exp_error (Num exp) clockTimestamp =
     (if clockTimestamp \<ge> exp then Some (Error ''jwt expired'') else None)"
| "exp_error v clockTimestamp = Some (Error ''invalid exp value'')"

definition jwt_verify :: "token \<Rightarrow> string \<Rightarrow> nat \<Rightarrow> error + payload" where
  "jwt_verify tok secretOrPublicKey now =
     (let clockTimestamp = int (now div 1000) in
      case tok of
        Opaque s \<Rightarrow> Inl (Error ''jwt malformed'')
      | Jwt decoded k \<Rightarrow>
          if k \<noteq> secretOrPublicKey then Inl (Error ''invalid signature'')
          else
            (case nbf_error (property decoded ''nbf'') clockTimestamp of
               Some err \<Rightarrow> Inl err
             | None \<Rightarrow>
                 (case exp_error (property decoded ''exp'') clockTimestamp of
                    Some err \<Rightarrow> Inl err
                  | None \<Rightarrow> Inr decoded)))"

text \<open>\<open>expiresIn: '24h'\<close>, in the seconds \<open>jsonwebtoken\<close> adds to \<open>iat\<close>.\<close>

definition expiresIn_24h :: nat where
  "expiresIn_24h = 24 * 60 * 60"

subsection \<open>The environment\<close>

record setting =
  key :: string
  "value" :: string
  lastModified :: nat

text \<open>
  Everything outside the process: the two environment variables the code reads, the
  Key Vault (\<open>secretClient.getSecret(name)\<close>, giving the secret's value or throwing), the
  constructor of the App Configuration client (which throws on a connection string it
  cannot use, and otherwise gives a client, a lookup \<open>getConfigurationSetting({ key })\<close>
  that gives the entry or throws), and \<open>bcrypt.compare(data, hash)\<close>, which gives a
  boolean or throws.
\<close>

record env =
  env_JWT_SECRET :: "string option"
  env_NODE_ENV :: "string option"
  getSecret :: "string \<Rightarrow> error + string"
  AppConfigurationClient :: "string \<Rightarrow> error + (string \<Rightarrow> error + setting)"
  bcrypt_compare :: "jsval \<Rightarrow> string \<Rightarrow> error + bool"

text \<open>The calls a handler makes to the secrets store and to the settings store.\<close>

datatype call =
    GetSecret string
  | NewAppConfigurationClient string
  | GetConfigurationSetting string

text \<open>\<open>process.env.JWT_SECRET || 'your-secret-key'\<close>: an empty variable is falsy.\<close>

definition JWT_SECRET :: "env \<Rightarrow> string" where
  "JWT_SECRET env =
     (case env_JWT_SECRET env of
        None \<Rightarrow> ''your-secret-key''
      | Some s \<Rightarrow> if s = [] then ''your-secret-key'' else s)"

subsection \<open>Requests and responses\<close>

datatype route =
    GetHealth
  | PostLogin
  | GetProfile
  | GetConfig
  | GetConfigKey string
  | GetRoot

text \<open>
  A request: its route, the \<open>Authorization\<close> header as the array
  \<open>authHeader.split(' ')\<close> of its words (\<open>None\<close> when the header is absent; the empty
  header is \<open>[Opaque []]\<close>), and the \<open>username\<close> and \<open>password\<close> fields of its body.
\<close>

record request =
  route :: route
  authorization :: "token list option"
  body_username :: jsval
  body_password :: jsval

text \<open>
  The response bodies, one constructor for each shape the handlers send:
  \<open>{ error }\<close>; \<open>{ success: false, error, details }\<close> with \<open>details\<close> present or not;
  the health report; the login, profile, configuration and single-setting successes;
  and an HTML page.
\<close>

datatype body =
    ErrorBody string
  | FailureBody string "string option"
  | HealthBody nat
  | LoginBody token identity
  | ProfileBody payload
  | ConfigBody string string bool
  | SettingBody string string nat
  | Html string

record response =
  status :: nat
  body :: body

subsection \<open>The helper and the middleware\<close>

text \<open>
  \<open>getAppConfigClient\<close>: the secret is read and the client is built on every call; the
  \<open>catch\<close> logs and rethrows.
\<close>

definition getAppConfigClient ::
  "env \<Rightarrow> (error + (string \<Rightarrow> error + setting)) \<times> call list" where
  "getAppConfigClient env =
     (case getSecret env ''AppConfigConnectionString'' of
        Inl error \<Rightarrow> (Inl error, [GetSecret ''AppConfigConnectionString''])
      | Inr connectionString \<Rightarrow>
          (case AppConfigurationClient env connectionString of
             Inl error \<Rightarrow>
               (Inl error,
                [GetSecret ''AppConfigConnectionString'',
                 NewAppConfigurationClient connectionString])
           | Inr client \<Rightarrow>
               (Inr client,
                [GetSecret ''AppConfigConnectionString'',
                 NewAppConfigurationClient connectionString])))"

text \<open>
  \<open>authenticateToken\<close>: \<open>Inl\<close> is the response it sends itself, \<open>Inr\<close> the decoded
  user it hands to \<open>next()\<close>. It makes no call to either store.
\<close>

definition authenticateToken :: "env \<Rightarrow> nat \<Rightarrow> request \<Rightarrow> response + payload" where
  "authenticateToken env now req =
     (let token = (case authorization req of
                     None \<Rightarrow> None
                   | Some authHeader \<Rightarrow> index authHeader 1)
      in case token of
           None \<Rightarrow> Inl \<lparr>status = 401, body = ErrorBody ''Access token required''\<rparr>
         | Some tok \<Rightarrow>
             if tok = Opaque [] then
               Inl \<lparr>status = 401, body = ErrorBody ''Access token required''\<rparr>
             else
               (case jwt_verify tok (JWT_SECRET env) now of
                  Inl err \<Rightarrow>
                    Inl \<lparr>status = 403, body = ErrorBody ''Invalid or expired token''\<rparr>
                | Inr decoded \<Rightarrow> Inr decoded))"

text \<open>The error handling middleware, registered after the routes.\<close>

definition errorMiddleware :: "env \<Rightarrow> error \<Rightarrow> response" where
  "errorMiddleware env error =
     \<lparr>status = 500,
      body = FailureBody ''Internal server error''
               (if env_NODE_ENV env = Some ''development'' then Some (message error)
                else None)\<rparr>"

subsection \<open>The route handlers\<close>

text \<open>
  The token of the login handler: its call
  \<open>jwt.sign({ id, username, name }, JWT_SECRET, { expiresIn: '24h' })\<close> for a user.
\<close>

definition session_token :: "env \<Rightarrow> nat \<Rightarrow> user \<Rightarrow> token" where
  "session_token env now u =
     jwt_sign
       [(''id'', Num (user_id u)), (''username'', Str (username u)), (''name'', Str (name u))]
       (JWT_SECRET env) expiresIn_24h now"

definition login :: "env \<Rightarrow> nat \<Rightarrow> jsval \<Rightarrow> jsval \<Rightarrow> response" where
  "login env now uname pword =
     (if \<not> truthy uname \<or> \<not> truthy pword then
        \<lparr>status = 400, body = ErrorBody ''Username and password required''\<rparr>
      else
        (case find (\<lambda>u. Str (username u) = uname) users of
           None \<Rightarrow> \<lparr>status = 401, body = ErrorBody ''Invalid credentials''\<rparr>
         | Some u \<Rightarrow>
             (case bcrypt_compare env pword (password u) of
                Inl error \<Rightarrow> \<lparr>status = 500, body = ErrorBody ''Internal server error''\<rparr>
              | Inr isValidPassword \<Rightarrow>
                  if \<not> isValidPassword then
                    \<lparr>status = 401, body = ErrorBody ''Invalid credentials''\<rparr>
                  else
                    \<lparr>status = 200,
                     body = LoginBody (session_token env now u)
                       \<lparr>user_id = user_id u, username = username u, name = name u\<rparr>\<rparr>)))"

definition profile :: "payload \<Rightarrow> response" where
  "profile u = \<lparr>status = 200, body = ProfileBody u\<rparr>"

definition health :: "nat \<Rightarrow> response" where
  "health now = \<lparr>status = 200, body = HealthBody now\<rparr>"

text \<open>\<open>GET /api/config\<close>, after the middleware has let the request through.\<close>

definition config_failure :: "error \<Rightarrow> response" where
  "config_failure error =
     \<lparr>status = 500,
      body = FailureBody ''Failed to load configuration'' (Some (message error))\<rparr>"

definition getAllConfig :: "env \<Rightarrow> response \<times> call list" where
  "getAllConfig env =
     (case getAppConfigClient env of
        (Inl error, t) \<Rightarrow> (config_failure error, t)
      | (Inr client, t) \<Rightarrow>
          (case client ''PromoBanner/Text'' of
             Inl error \<Rightarrow>
               (config_failure error, t @ [GetConfigurationSetting ''PromoBanner/Text''])
           | Inr promoText \<Rightarrow>
               (case client ''PromoBanner/Color'' of
                  Inl error \<Rightarrow>
                    (config_failure error,
                     t @ [GetConfigurationSetting ''PromoBanner/Text'',
                          GetConfigurationSetting ''PromoBanner/Color''])
                | Inr promoColor \<Rightarrow>
                    (case client ''Feature/NewCheckout'' of
                       Inl error \<Rightarrow>
                         (config_failure error,
                          t @ [GetConfigurationSetting ''PromoBanner/Text'',
                               GetConfigurationSetting ''PromoBanner/Color'',
                               GetConfigurationSetting ''Feature/NewCheckout''])
                     | Inr newCheckoutEnabled \<Rightarrow>
                         (\<lparr>status = 200,
                           body = ConfigBody (value promoText) (value promoColor)
                                    (value newCheckoutEnabled = ''true'')\<rparr>,
                          t @ [GetConfigurationSetting ''PromoBanner/Text'',
                               GetConfigurationSetting ''PromoBanner/Color'',
                               GetConfigurationSetting ''Feature/NewCheckout''])))))"

text \<open>\<open>GET /api/config/:key\<close>, after the middleware has let the request through.\<close>

definition setting_failure :: "error \<Rightarrow> response" where
  "setting_failure error =
     \<lparr>status = 500,
      body = FailureBody ''Failed to load configuration setting'' (Some (message error))\<rparr>"

definition getConfigByKey :: "env \<Rightarrow> string \<Rightarrow> response \<times> call list" where
  "getConfigByKey env k =
     (case getAppConfigClient env of
        (Inl error, t) \<Rightarrow> (setting_failure error, t)
      | (Inr client, t) \<Rightarrow>
          (case client k of
             Inl error \<Rightarrow> (setting_failure error, t @ [GetConfigurationSetting k])
           | Inr s \<Rightarrow>
               (\<lparr>status = 200, body = SettingBody (key s) (value s) (lastModified s)\<rparr>,
                t @ [GetConfigurationSetting k])))"

text \<open>
  The legacy page of \<open>GET /\<close>: the template literal, cut at its three interpolations.
  Strings are bytes, as the response carries them.
\<close>

definition nl :: string where
  "nl = [CHR 0x0A]"

definition page_before_color :: string where
  \<open>page_before_color =
     nl @
     ''            <!DOCTYPE html>'' @ nl @
     ''            <html>'' @ nl @
     ''            <head>'' @ nl @
     ''                <title>Azure App Config + Key Vault Demo</title>'' @ nl @
     ''                <style>'' @ nl @
     ''                    .banner {'' @ nl @
     ''                        background-color: ''\<close>

definition page_between_color_and_text :: string where
  \<open>page_between_color_and_text =
     '';'' @ nl @
     ''                        color: white;'' @ nl @
     ''                        padding: 20px;'' @ nl @
     ''                        text-align: center;'' @ nl @
     ''                        font-size: 24px;'' @ nl @
     ''                        margin-bottom: 20px;'' @ nl @
     ''                    }'' @ nl @
     ''                    .api-info {'' @ nl @
     ''                        background-color: #f0f0f0;'' @ nl @
     ''                        padding: 15px;'' @ nl @
     ''                        margin: 20px 0;'' @ nl @
     ''                        border-radius: 5px;'' @ nl @
     ''                    }'' @ nl @
     ''                </style>'' @ nl @
     ''            </head>'' @ nl @
     ''            <body>'' @ nl @
     ''                <div class="banner">''\<close>

definition page_between_text_and_flag :: string where
  \<open>page_between_text_and_flag =
     ''</div>'' @ nl @
     ''                <h1>Welcome to our LTI Mindtree Store!</h1>'' @ nl @
     ''                <p>New Checkout Feature: ''\<close>

definition page_after_flag :: string where
  \<open>page_after_flag =
     ''</p>'' @ nl @
     ''                <p><small>Configuration securely stored in Key Vault</small></p>'' @ nl @
     ''                '' @ nl @
     ''                <div class="api-info">'' @ nl @
     ''                    <h3>'' @ [CHR 0xC3, CHR 0xB0, CHR 0xC5, CHR 0xB8, CHR 0xE2, CHR 0x80, CHR 0x9D, CHR 0xE2, CHR 0x80, CHR 0x94] @ '' API Endpoints Available:</h3>'' @ nl @
     ''                    <ul>'' @ nl @
     ''                        <li><strong>POST</strong> /api/auth/login - User authentication</li>'' @ nl @
     ''                        <li><strong>GET</strong> /api/auth/profile - Get user profile (requires auth)</li>'' @ nl @
     ''                        <li><strong>GET</strong> /api/config - Get all configuration settings (requires auth)</li>'' @ nl @
     ''                        <li><strong>GET</strong> /api/config/:key - Get specific setting (requires auth)</li>'' @ nl @
     ''                        <li><strong>GET</strong> /api/health - Health check</li>'' @ nl @
     ''                    </ul>'' @ nl @
     ''                    <p><strong>Demo Credentials:</strong> demo@ltimindtree.com / password123</p>'' @ nl @
     ''                    <p><strong>Frontend URL:</strong> <a href="http://localhost:3000">http://localhost:3000</a></p>'' @ nl @
     ''                </div>'' @ nl @
     ''            </body>'' @ nl @
     ''            </html>'' @ nl @
     ''        ''\<close>

definition checkout_label :: "bool \<Rightarrow> string" where
  "checkout_label enabled =
     (if enabled
      then [CHR 0xC3, CHR 0xB0, CHR 0xC5, CHR 0xB8, CHR 0xC5, CHR 0xB8, CHR 0xC2, CHR 0xA2] @
           '' Enabled''
      else [CHR 0xC3, CHR 0xB0, CHR 0xC5, CHR 0xB8, CHR 0xE2, CHR 0x80, CHR 0x9D, CHR 0xC2,
            CHR 0xB4] @ '' Disabled'')"

definition page :: "string \<Rightarrow> string \<Rightarrow> bool \<Rightarrow> string" where
  "page color text enabled =
     page_before_color @ color @ page_between_color_and_text @ text @
     page_between_text_and_flag @ checkout_label enabled @ page_after_flag"

definition error_page :: "error \<Rightarrow> response" where
  "error_page error =
     \<lparr>status = 200,
      body = Html (''<h1>Error loading settings</h1><p>'' @ message error @ ''</p>'')\<rparr>"

definition legacy :: "env \<Rightarrow> response \<times> call list" where
  "legacy env =
     (case getAppConfigClient env of
        (Inl error, t) \<Rightarrow> (error_page error, t)
      | (Inr client, t) \<Rightarrow>
          (case client ''PromoBanner/Text'' of
             Inl error \<Rightarrow>
               (error_page error, t @ [GetConfigurationSetting ''PromoBanner/Text''])
           | Inr promoText \<Rightarrow>
               (case client ''PromoBanner/Color'' of
                  Inl error \<Rightarrow>
                    (error_page error,
                     t @ [GetConfigurationSetting ''PromoBanner/Text'',
                          GetConfigurationSetting ''PromoBanner/Color''])
                | Inr promoColor \<Rightarrow>
                    (case client ''Feature/NewCheckout'' of
                       Inl error \<Rightarrow>
                         (error_page error,
                          t @ [GetConfigurationSetting ''PromoBanner/Text'',
                               GetConfigurationSetting ''PromoBanner/Color'',
                               GetConfigurationSetting ''Feature/NewCheckout''])
                     | Inr newCheckoutEnabled \<Rightarrow>
                         (\<lparr>status = 200,
                           body = Html (page (value promoColor) (value promoText)
                                          (value newCheckoutEnabled = ''true''))\<rparr>,
                          t @ [GetConfigurationSetting ''PromoBanner/Text'',
                               GetConfigurationSetting ''PromoBanner/Color'',
                               GetConfigurationSetting ''Feature/NewCheckout''])))))"

subsection \<open>Routing\<close>

text \<open>
  One request: the route's middleware chain, with the calls made to the stores. The
  three protected routes run \<open>authenticateToken\<close> first and their handler only when it
  calls \<open>next()\<close>.
\<close>

definition handle :: "env \<Rightarrow> nat \<Rightarrow> request \<Rightarrow> response \<times> call list" where
  "handle env now req =
     (case route req of
        GetHealth \<Rightarrow> (health now, [])
      | PostLogin \<Rightarrow> (login env now (body_username req) (body_password req), [])
      | GetProfile \<Rightarrow>
          (case authenticateToken env now req of
             Inl res \<Rightarrow> (res, [])
           | Inr u \<Rightarrow> (profile u, []))
      | GetConfig \<Rightarrow>
          (case authenticateToken env now req of
             Inl res \<Rightarrow> (res, [])
           | Inr u \<Rightarrow> getAllConfig env)
      | GetConfigKey k \<Rightarrow>
          (case authenticateToken env now req of
             Inl res \<Rightarrow> (res, [])
           | Inr u \<Rightarrow> getConfigByKey env k)
      | GetRoot \<Rightarrow> legacy env)"

text \<open>
  The server over a sequence of requests, each with the clock and the state of the
  outside world at its arrival. The process keeps nothing between two requests.
\<close>

primrec serve :: "(env \<times> nat \<times> request) list \<Rightarrow> (response \<times> call list) list" where
  "serve [] = []"
| "serve (r # rs) = (case r of (env, now, req) \<Rightarrow> handle env now req) # serve rs"

subsection \<open>Observations on requests, responses and call sequences\<close>

text \<open>The token a request presents: the second word of its \<open>Authorization\<close> header.\<close>

definition presented_token :: "request \<Rightarrow> token option" where
  "presented_token req =
     (case authorization req of None \<Rightarrow> None | Some authHeader \<Rightarrow> index authHeader 1)"

text \<open>
  A request carries a valid session token when the token it presents is signed with the
  gateway's key and its expiry has not elapsed: it has no \<open>exp\<close>, or its \<open>exp\<close> is a
  number of seconds that the clock has not reached.
\<close>

definition unexpired :: "payload \<Rightarrow> nat \<Rightarrow> bool" where
  "unexpired p now =
     (case property p ''exp'' of
        Undefined \<Rightarrow> True
      | Num n \<Rightarrow> int (now div 1000) < n
      | _ \<Rightarrow> False)"

definition carries_valid_token :: "env \<Rightarrow> nat \<Rightarrow> request \<Rightarrow> bool" where
  "carries_valid_token env now req =
     (case presented_token req of
        Some (Jwt p k) \<Rightarrow> k = JWT_SECRET env \<and> unexpired p now
      | _ \<Rightarrow> False)"

text \<open>The \<open>iat\<close> of a token: the time, in seconds, at which it says it was issued.\<close>

definition issued_at :: "token \<Rightarrow> jsval" where
  "issued_at tok = (case tok of Jwt p k \<Rightarrow> property p ''iat'' | Opaque s \<Rightarrow> Undefined)"

text \<open>
  A request presents no token at all when the header is absent, has no second word, or
  has the empty string there.
\<close>

definition missing_token :: "request \<Rightarrow> bool" where
  "missing_token req =
     (presented_token req = None \<or> presented_token req = Some (Opaque []))"

text \<open>The request \<open>Authorization: Bearer <token>\<close> to a route, with an empty body.\<close>

definition bearer :: "route \<Rightarrow> token \<Rightarrow> request" where
  "bearer r tok =
     \<lparr>route = r, authorization = Some [Opaque ''Bearer'', tok],
      body_username = Undefined, body_password = Undefined\<rparr>"

text \<open>A request with no \<open>Authorization\<close> header and an empty body.\<close>

definition anonymous :: "route \<Rightarrow> request" where
  "anonymous r =
     \<lparr>route = r, authorization = None,
      body_username = Undefined, body_password = Undefined\<rparr>"

text \<open>A login request.\<close>

definition credentials :: "jsval \<Rightarrow> jsval \<Rightarrow> request" where
  "credentials uname pword =
     \<lparr>route = PostLogin, authorization = None,
      body_username = uname, body_password = pword\<rparr>"

text \<open>The \<open>details\<close> field of a response body, when it has one.\<close>

fun details :: "body \<Rightarrow> string option" where
  "details (FailureBody e d) = d"
| "details b = None"

text \<open>The \<open>config.features.newCheckout\<close> field of a response body, when it has one.\<close>

fun newCheckout_field :: "body \<Rightarrow> bool option" where
  "newCheckout_field (ConfigBody t c f) = Some f"
| "newCheckout_field b = None"

text \<open>The configuration values a response body carries.\<close>

fun config_values :: "body \<Rightarrow> string list" where
  "config_values (ConfigBody t c f) = [t, c, if f then ''true'' else ''false'']"
| "config_values (SettingBody k v m) = [v]"
| "config_values b = []"

fun is_lookup :: "call \<Rightarrow> bool" where
  "is_lookup (GetConfigurationSetting k) = True"
| "is_lookup c = False"

text \<open>A request to one of the two configuration routes.\<close>

fun config_route :: "route \<Rightarrow> bool" where
  "config_route GetConfig = True"
| "config_route (GetConfigKey k) = True"
| "config_route r = False"

text \<open>A request to one of the three routes behind \<open>authenticateToken\<close>.\<close>

fun protected :: "route \<Rightarrow> bool" where
  "protected GetProfile = True"
| "protected GetConfig = True"
| "protected (GetConfigKey k) = True"
| "protected r = False"




text \<open>
  The keys a route looks up, in order, and the first error the upstream calls of a route
  throw: from the vault or the client's constructor, else from the first lookup that
  fails.
\<close>

fun keys_of :: "route \<Rightarrow> string list" where
  "keys_of GetConfig = [''PromoBanner/Text'', ''PromoBanner/Color'', ''Feature/NewCheckout'']"
| "keys_of GetRoot = [''PromoBanner/Text'', ''PromoBanner/Color'', ''Feature/NewCheckout'']"
| "keys_of (GetConfigKey k) = [k]"
| "keys_of r = []"

fun first_failure :: "(string \<Rightarrow> error + setting) \<Rightarrow> string list \<Rightarrow> error option" where
  "first_failure client [] = None"
| "first_failure client (k # ks) =
     (case client k of Inl e \<Rightarrow> Some e | Inr s \<Rightarrow> first_failure client ks)"

definition upstream_error :: "env \<Rightarrow> string list \<Rightarrow> error option" where
  "upstream_error env ks =
     (case getAppConfigClient env of
        (Inl e, t) \<Rightarrow> Some e
      | (Inr client, t) \<Rightarrow> first_failure client ks)"

subsection \<open>A sample deployment\<close>

text \<open>
  The store of the lab instructions: the three entries, behind the connection string
  that the vault holds under \<open>AppConfigConnectionString\<close>.
\<close>

definition lab_store :: "string \<Rightarrow> error + setting" where
  "lab_store k =
     (if k = ''PromoBanner/Text'' then
        Inr \<lparr>key = k, value = ''Summer Sale - 50% Off!'', lastModified = 1700000000000\<rparr>
      else if k = ''PromoBanner/Color'' then
        Inr \<lparr>key = k, value = ''blue'', lastModified = 1700000000001\<rparr>
      else if k = ''Feature/NewCheckout'' then
        Inr \<lparr>key = k, value = ''true'', lastModified = 1700000000002\<rparr>
      else Inl (Error ''Setting not found''))"

definition lab_vault :: "string \<Rightarrow> error + string" where
  "lab_vault n =
     (if n = ''AppConfigConnectionString'' then Inr ''Endpoint=https://lab.azconfig.io''
      else Inl (Error ''SecretNotFound''))"

definition lab_client :: "string \<Rightarrow> error + (string \<Rightarrow> error + setting)" where
  "lab_client connectionString =
     (if connectionString = ''Endpoint=https://lab.azconfig.io'' then Inr lab_store
      else Inl (Error ''Invalid connection string''))"

text \<open>
  \<open>bcrypt.compare\<close> on the passwords used here. Data that is not a string is an
  error. A string matches a hash when the hash is the bcrypt hash of the string under the
  hash's own version, cost and salt; the table holds the bcrypt hashes of two passwords
  under those of the stored hash (\<open>$2b$\<close>, cost 10, salt \<open>rOzWbkQ9p5Fy8.QqZ6m7Ce\<close>).
  Neither is the stored hash: the stored hash is not the hash of \<open>password123\<close>.
\<close>

definition lab_hashes :: "(string \<times> string) list" where
  "lab_hashes =
     [(''password123'', ''$2b$10$rOzWbkQ9p5Fy8.QqZ6m7Ceg2LVtNfEEV.CtSqtCk2dKmkhKUmFZ6.''),
      (''letmein'', ''$2b$10$rOzWbkQ9p5Fy8.QqZ6m7CejIdy453jHJMuNDJ1sXD6WYSQJr8TSJq'')]"

definition lab_bcrypt :: "jsval \<Rightarrow> string \<Rightarrow> error + bool" where
  "lab_bcrypt data hash =
     (case data of
        Str s \<Rightarrow> Inr (map_of lab_hashes s = Some hash)
      | _ \<Rightarrow> Inl (Error ''data and hash must be strings''))"

definition lab :: env where
  "lab =
     \<lparr>env_JWT_SECRET = None, env_NODE_ENV = None, getSecret = lab_vault,
      AppConfigurationClient = lab_client, bcrypt_compare = lab_bcrypt\<rparr>"

text \<open>The same deployment with the vault unreachable.\<close>

definition lab_vault_down :: env where
  "lab_vault_down = lab\<lparr>getSecret := (\<lambda>n. Inl (Error ''Vault unreachable''))\<rparr>"

text \<open>The same deployment with the entry \<open>PromoBanner/Color\<close> missing from the store.\<close>

definition color_missing_store :: "string \<Rightarrow> error + setting" where
  "color_missing_store k =
     (if k = ''PromoBanner/Color'' then Inl (Error ''Setting not found'') else lab_store k)"

definition lab_color_missing :: env where
  "lab_color_missing =
     lab\<lparr>AppConfigurationClient := (\<lambda>connectionString. Inr color_missing_store)\<rparr>"

text \<open>
  The same deployment after the secret has been rotated to another connection string,
  behind which the flag \<open>Feature/NewCheckout\<close> holds \<open>True\<close>.
\<close>

definition rotated_store :: "string \<Rightarrow> error + setting" where
  "rotated_store k =
     (if k = ''Feature/NewCheckout''
      then Inr \<lparr>key = k, value = ''True'', lastModified = 1700000000003\<rparr>
      else lab_store k)"

definition lab_rotated :: env where
  "lab_rotated =
     lab\<lparr>getSecret := (\<lambda>n. Inr ''Endpoint=https://rotated.azconfig.io''),
         AppConfigurationClient := (\<lambda>connectionString. Inr rotated_store)\<rparr>"

text \<open>
  The token that the login handler signs for the demo user at clock 1500 ms, and a token
  signed with the same key that carries no \<open>exp\<close>.
\<close>

definition lab_token :: token where
  "lab_token =
     Jwt [(''id'', Num 1), (''username'', Str ''demo@ltimindtree.com''),
          (''name'', Str ''Demo User''), (''iat'', Num 1), (''exp'', Num 86401)]
         ''your-secret-key''"

definition lab_token_without_exp :: token where
  "lab_token_without_exp = Jwt [(''id'', Num 1)] ''your-secret-key''"

text \<open>
  Two requests in a row: all the settings from the lab deployment, then one setting
  after the secret has been rotated.
\<close>

definition two_requests :: "(env \<times> nat \<times> request) list" where
  "two_requests =
     [(lab, 2000, bearer GetConfig lab_token),
      (lab_rotated, 2000, bearer (GetConfigKey ''Feature/NewCheckout'') lab_token)]"

section \<open>Properties\<close>

subsection \<open>The authentication gate\<close>

lemma authenticateToken_presented:
  "authenticateToken env now req =
     (case presented_token req of
        None \<Rightarrow> Inl \<lparr>status = 401, body = ErrorBody ''Access token required''\<rparr>
      | Some tok \<Rightarrow>
          if tok = Opaque [] then
            Inl \<lparr>status = 401, body = ErrorBody ''Access token required''\<rparr>
          else
            (case jwt_verify tok (JWT_SECRET env) now of
               Inl err \<Rightarrow> Inl \<lparr>status = 403, body = ErrorBody ''Invalid or expired token''\<rparr>
             | Inr decoded \<Rightarrow> Inr decoded))"
  by (simp add: authenticateToken_def presented_token_def)

lemma authenticateToken_missing:
  "missing_token req \<Longrightarrow>
   authenticateToken env now req = Inl \<lparr>status = 401, body = ErrorBody ''Access token required''\<rparr>"
  by (auto simp: missing_token_def authenticateToken_presented)

lemma jwt_verify_accepts:
  "jwt_verify tok k now = Inr p \<Longrightarrow> tok = Jwt p k \<and> unexpired p now"
  by (cases tok; cases "property (payload tok) ''exp''")
     (auto simp: jwt_verify_def unexpired_def Let_def split: if_splits option.splits)

lemma authenticateToken_Inr:
  "authenticateToken env now req = Inr p \<Longrightarrow> carries_valid_token env now req"
  by (cases "presented_token req")
     (auto simp: authenticateToken_presented carries_valid_token_def
        split: if_splits sum.splits dest: jwt_verify_accepts)

lemma authenticateToken_rejection:
  "authenticateToken env now req = Inl res \<Longrightarrow>
   res = (if missing_token req
          then \<lparr>status = 401, body = ErrorBody ''Access token required''\<rparr>
          else \<lparr>status = 403, body = ErrorBody ''Invalid or expired token''\<rparr>)"
  by (cases "presented_token req")
     (auto simp: authenticateToken_presented missing_token_def split: if_splits sum.splits)

lemma authenticateToken_invalid:
  assumes "\<not> carries_valid_token env now req"
  shows "authenticateToken env now req =
           Inl (if missing_token req
                then \<lparr>status = 401, body = ErrorBody ''Access token required''\<rparr>
                else \<lparr>status = 403, body = ErrorBody ''Invalid or expired token''\<rparr>)"
proof (cases "authenticateToken env now req")
  case (Inl res)
  with authenticateToken_rejection [OF Inl] show ?thesis by simp
next
  case (Inr p)
  with authenticateToken_Inr [OF Inr] assms show ?thesis by simp
qed

text \<open>A token signed with the gateway's key that carries no \<open>exp\<close> passes at any clock.\<close>

lemma token_without_exp_accepted:
  "authenticateToken lab now (bearer r lab_token_without_exp) =
     Inr (payload lab_token_without_exp)"
  by (simp add: authenticateToken_def bearer_def index_def jwt_verify_def JWT_SECRET_def
      lab_def lab_token_without_exp_def property_def)

lemma handle_rejected:
  "protected (route req) \<Longrightarrow> authenticateToken env now req = Inl res \<Longrightarrow>
   handle env now req = (res, [])"
  by (cases "route req") (simp_all add: handle_def)

text \<open>
  Claim C1, as the code has it. A request to \<open>GET /api/config\<close>,
  \<open>GET /api/config/:key\<close> or \<open>GET /api/auth/profile\<close> that carries no valid session
  token is answered by the middleware itself, and no call to the secrets store or to the
  settings store is made. The status is 401 when no token is presented at all, and 403
  when a token is presented that is malformed, signed with another key or expired.
\<close>

theorem unauthenticated_rejected_without_calls:
  assumes "protected (route req)" and "\<not> carries_valid_token env now req"
  shows "snd (handle env now req) = [] \<and>
         fst (handle env now req) =
           (if missing_token req
            then \<lparr>status = 401, body = ErrorBody ''Access token required''\<rparr>
            else \<lparr>status = 403, body = ErrorBody ''Invalid or expired token''\<rparr>)"
  using handle_rejected [OF assms(1) authenticateToken_invalid [OF assms(2)]] by simp

theorem unauthenticated_rejected_without_calls_witness:
  "protected (route (bearer GetConfig (Opaque ''abc''))) \<and>
   \<not> carries_valid_token lab 0 (bearer GetConfig (Opaque ''abc'')) \<and>
   \<not> missing_token (bearer GetConfig (Opaque ''abc'')) \<and>
   snd (handle lab 0 (bearer GetConfig (Opaque ''abc''))) = [] \<and>
   fst (handle lab 0 (bearer GetConfig (Opaque ''abc''))) =
     \<lparr>status = 403, body = ErrorBody ''Invalid or expired token''\<rparr>"
proof -
  have p: "protected (route (bearer GetConfig (Opaque ''abc'')))"
    by (simp add: bearer_def)
  have n: "\<not> carries_valid_token lab 0 (bearer GetConfig (Opaque ''abc''))"
    by (simp add: bearer_def carries_valid_token_def presented_token_def index_def)
  have m: "\<not> missing_token (bearer GetConfig (Opaque ''abc''))"
    by (simp add: bearer_def missing_token_def presented_token_def index_def)
  show ?thesis
    using unauthenticated_rejected_without_calls [OF p n] p n m by simp
qed

text \<open>
  The claim as stated promises 401 for every request without a valid token. A request
  presenting the token \<open>abc\<close> carries no valid token and is answered with 403.
\<close>

theorem invalid_token_is_403_counterexample:
  "protected (route (bearer GetConfig (Opaque ''abc''))) \<and>
   \<not> carries_valid_token lab 0 (bearer GetConfig (Opaque ''abc'')) \<and>
   status (fst (handle lab 0 (bearer GetConfig (Opaque ''abc'')))) = 403"
  by (simp add: bearer_def carries_valid_token_def presented_token_def index_def handle_def
      authenticateToken_def jwt_verify_def)


subsection \<open>Login\<close>

lemma handle_login:
  "route req = PostLogin \<Longrightarrow>
   handle env now req = (login env now (body_username req) (body_password req), [])"
  by (simp add: handle_def)


lemma login_known:
  assumes "truthy uname" and "truthy pword"
      and "find (\<lambda>u. Str (username u) = uname) users = Some u"
  shows "login env now uname pword =
           (case bcrypt_compare env pword (password u) of
              Inl error \<Rightarrow> \<lparr>status = 500, body = ErrorBody ''Internal server error''\<rparr>
            | Inr isValidPassword \<Rightarrow>
                if isValidPassword then
                  \<lparr>status = 200,
                   body = LoginBody (session_token env now u)
                     \<lparr>user_id = user_id u, username = username u, name = name u\<rparr>\<rparr>
                else \<lparr>status = 401, body = ErrorBody ''Invalid credentials''\<rparr>)"
  using assms by (simp add: login_def split: sum.splits)

lemma found_user:
  "find (\<lambda>u. Str (username u) = uname) users = Some u \<Longrightarrow>
   u \<in> set users \<and> Str (username u) = uname"
  by (auto simp: find_Some_iff)




text \<open>
  Left out of the statement above: a password that is not a string. \<open>bcrypt.compare\<close>
  throws on it, so the login of a known username falls into the \<open>catch\<close> and is
  answered with 500, while the login of an unknown username never reaches the comparison
  and is answered with 401. There the two responses differ.
\<close>

lemma throwing_comparison_tells_usernames_apart:
  "handle lab 0 (credentials (Str ''demo@ltimindtree.com'') (Num 5)) =
     (\<lparr>status = 500, body = ErrorBody ''Internal server error''\<rparr>, []) \<and>
   handle lab 0 (credentials (Str ''nobody@example.com'') (Num 5)) =
     (\<lparr>status = 401, body = ErrorBody ''Invalid credentials''\<rparr>, [])"
  by (simp add: handle_def credentials_def login_def users_def lab_def lab_bcrypt_def)

text \<open>
  Claim C10 fails on the code. The claim is about the pairs that match the fixture user,
  whose credentials are \<open>demo@ltimindtree.com\<close> and \<open>password123\<close>: the comment on the
  stored hash and the legacy page both say so. The stored hash is not the bcrypt hash of
  \<open>password123\<close>, so the login with these credentials is answered with 401 and no
  token is issued.
\<close>

theorem documented_credentials_rejected:
  "handle lab now (credentials (Str ''demo@ltimindtree.com'') (Str ''password123'')) =
     (\<lparr>status = 401, body = ErrorBody ''Invalid credentials''\<rparr>, [])"
  by (simp add: handle_def credentials_def login_def users_def lab_def lab_bcrypt_def
      lab_hashes_def)

text \<open>
  What the handler does once the comparison accepts a password: the token it answers
  with is the one it signs for the user found, and that token, verified with the
  gateway's key before its expiry, gives the user's id, username and name back.
\<close>

lemma login_issues_session_token:
  assumes "login env now uname pword = \<lparr>status = 200, body = LoginBody tok ident\<rparr>"
  shows "\<exists>u \<in> set users. Str (username u) = uname \<and> tok = session_token env now u \<and>
           ident = \<lparr>user_id = user_id u, username = username u, name = name u\<rparr>"
proof (cases "find (\<lambda>u. Str (username u) = uname) users")
  case None
  with assms show ?thesis
    by (simp add: login_def split: if_splits)
next
  case (Some u)
  from assms have t: "truthy uname" "truthy pword"
    by (auto simp: login_def split: if_splits)
  from login_known [OF t Some] assms found_user [OF Some] show ?thesis
    by (auto split: sum.splits if_splits)
qed


subsection \<open>The lifetime of a token\<close>

lemma session_token_payload:
  "session_token env now u =
     Jwt [(''id'', Num (user_id u)), (''username'', Str (username u)),
          (''name'', Str (name u)), (''iat'', Num (int (now div 1000))),
          (''exp'', Num (int (now div 1000 + 86400)))]
         (JWT_SECRET env)"
  by (simp add: session_token_def jwt_sign_def expiresIn_24h_def Let_def)

lemma session_token_verify:
  "jwt_verify (session_token env now u) (JWT_SECRET env) t =
     (if t < (now div 1000 + 86400) * 1000
      then Inr (payload (session_token env now u))
      else Inl (Error ''jwt expired''))"
proof -
  have "(t div 1000 < now div 1000 + 86400) = (t < (now div 1000 + 86400) * 1000)"
    by (simp add: div_less_iff_less_mult)
  then show ?thesis
    by (auto simp: session_token_payload jwt_verify_def property_def Let_def)
qed

text \<open>
  Claim C3. A token issued by \<open>login\<close>, the token that the handler signs, says in its
  \<open>iat\<close> when it was issued: at \<open>T\<close>, the clock of the login in whole seconds. The
  middleware accepts it at every time from \<open>T\<close> to before \<open>T + 24h\<close> (indeed at every
  time before \<open>T + 24h\<close>) and rejects it with \<open>Invalid or expired token\<close> at every time
  from \<open>T + 24h\<close> on. Clocks are in milliseconds, \<open>T\<close> in seconds.
\<close>

theorem token_lifetime:
  assumes "presented_token req = Some (session_token env now u)"
      and "issued_at (session_token env now u) = Num (int T)"
  shows "T = now div 1000 \<and>
         (t < T * 1000 + 86400000 \<longrightarrow>
            authenticateToken env t req = Inr (payload (session_token env now u))) \<and>
         (T * 1000 + 86400000 \<le> t \<longrightarrow>
            authenticateToken env t req =
              Inl \<lparr>status = 403, body = ErrorBody ''Invalid or expired token''\<rparr>)"
proof -
  from assms(2) have T: "T = now div 1000"
    by (simp add: issued_at_def session_token_payload property_def)
  have e: "(now div 1000 + 86400) * 1000 = now div 1000 * 1000 + 86400000"
    by (simp add: algebra_simps)
  have n: "session_token env now u \<noteq> Opaque []"
    by (simp add: session_token_payload)
  have v: "authenticateToken env t req =
      (case jwt_verify (session_token env now u) (JWT_SECRET env) t of
         Inl err \<Rightarrow> Inl \<lparr>status = 403, body = ErrorBody ''Invalid or expired token''\<rparr>
       | Inr decoded \<Rightarrow> Inr decoded)"
    by (simp add: authenticateToken_presented assms(1) n)
  show ?thesis
    unfolding v session_token_verify e T by simp
qed

lemma lab_session_token: "session_token lab 1500 (hd users) = lab_token"
  by (simp add: session_token_payload users_def JWT_SECRET_def lab_def lab_token_def)

lemma presented_bearer: "presented_token (bearer r tok) = Some tok"
  by (simp add: presented_token_def bearer_def index_def)

theorem token_lifetime_witness:
  "presented_token (bearer GetProfile lab_token) = Some (session_token lab 1500 (hd users)) \<and>
   issued_at (session_token lab 1500 (hd users)) = Num 1 \<and>
   authenticateToken lab 1000 (bearer GetProfile lab_token) = Inr (payload lab_token) \<and>
   authenticateToken lab 86400999 (bearer GetProfile lab_token) = Inr (payload lab_token) \<and>
   authenticateToken lab 86401000 (bearer GetProfile lab_token) =
     Inl \<lparr>status = 403, body = ErrorBody ''Invalid or expired token''\<rparr>"
proof -
  have p: "presented_token (bearer GetProfile lab_token) =
           Some (session_token lab 1500 (hd users))"
    by (simp add: presented_bearer lab_session_token)
  have i: "issued_at (session_token lab 1500 (hd users)) = Num (int 1)"
    by (simp add: lab_session_token issued_at_def lab_token_def property_def)
  from token_lifetime [OF p i, of 1000] token_lifetime [OF p i, of 86400999]
       token_lifetime [OF p i, of 86401000] p i
  show ?thesis by (simp add: lab_session_token)
qed


subsection \<open>The three settings\<close>

lemma handle_config:
  "route req = GetConfig \<Longrightarrow> authenticateToken env now req = Inr u \<Longrightarrow>
   handle env now req = getAllConfig env"
  by (simp add: handle_def)

lemma handle_config_key:
  "route req = GetConfigKey k \<Longrightarrow> authenticateToken env now req = Inr u \<Longrightarrow>
   handle env now req = getConfigByKey env k"
  by (simp add: handle_def)

lemma handle_root: "route req = GetRoot \<Longrightarrow> handle env now req = legacy env"
  by (simp add: handle_def)

lemma client_calls_no_lookup:
  "getAppConfigClient env = (r, t) \<Longrightarrow> filter is_lookup t = []"
  by (auto simp: getAppConfigClient_def split: sum.splits)

lemma getAllConfig_success:
  assumes "getAppConfigClient env = (Inr client, t)"
      and "client ''PromoBanner/Text'' = Inr a" and "client ''PromoBanner/Color'' = Inr b"
      and "client ''Feature/NewCheckout'' = Inr s"
  shows "getAllConfig env =
           (\<lparr>status = 200,
             body = ConfigBody (value a) (value b) (value s = ''true'')\<rparr>,
            t @ [GetConfigurationSetting ''PromoBanner/Text'',
                 GetConfigurationSetting ''PromoBanner/Color'',
                 GetConfigurationSetting ''Feature/NewCheckout''])"
  using assms by (simp add: getAllConfig_def)

lemma getAllConfig_failure:
  assumes "getAppConfigClient env = (Inr client, t)"
      and "first_failure client (keys_of GetConfig) = Some e"
  shows "fst (getAllConfig env) = config_failure e"
  using assms by (simp add: getAllConfig_def split: sum.splits)

lemma getAllConfig_no_client:
  assumes "getAppConfigClient env = (Inl e, t)"
  shows "getAllConfig env = (config_failure e, t)"
  using assms by (simp add: getAllConfig_def)

lemma getAllConfig_cases:
  "(\<exists>e. upstream_error env (keys_of GetConfig) = Some e \<and>
        fst (getAllConfig env) = config_failure e) \<or>
   (\<exists>client t a b s. getAppConfigClient env = (Inr client, t) \<and>
        client ''PromoBanner/Text'' = Inr a \<and> client ''PromoBanner/Color'' = Inr b \<and>
        client ''Feature/NewCheckout'' = Inr s \<and>
        fst (getAllConfig env) =
          \<lparr>status = 200,
            body = ConfigBody (value a) (value b) (value s = ''true'')\<rparr>)"
proof (cases "getAppConfigClient env")
  case (Pair r t)
  show ?thesis
  proof (cases r)
    case (Inl e)
    with Pair show ?thesis by (simp add: upstream_error_def getAllConfig_def)
  next
    case (Inr client)
    with Pair show ?thesis
      by (simp add: upstream_error_def getAllConfig_def split: sum.splits)
  qed
qed

lemma first_failure_exists:
  "\<exists>k \<in> set ks. isl (client k) \<Longrightarrow> \<exists>e. first_failure client ks = Some e"
  by (induction ks) (auto split: sum.splits)

text \<open>
  Claim C4. Whatever string \<open>v\<close> the store holds under \<open>Feature/NewCheckout\<close>, the
  \<open>features.newCheckout\<close> field of the response of \<open>GET /api/config\<close> is true
  exactly when \<open>v\<close> is the string \<open>true\<close>; \<open>True\<close>, \<open>TRUE\<close>, \<open>1\<close> and the empty
  string all give false.
\<close>

theorem newCheckout_exact:
  assumes "route req = GetConfig" and "authenticateToken env now req = Inr u"
      and "getAppConfigClient env = (Inr client, t)"
      and "client ''PromoBanner/Text'' = Inr a" and "client ''PromoBanner/Color'' = Inr b"
      and "client ''Feature/NewCheckout'' = Inr s" and "value s = v"
  shows "newCheckout_field (body (fst (handle env now req))) = Some (v = ''true'') \<and>
         (v = ''True'' \<or> v = ''TRUE'' \<or> v = ''1'' \<or> v = [] \<longrightarrow>
            newCheckout_field (body (fst (handle env now req))) = Some False)"
proof -
  from handle_config [OF assms(1,2)] getAllConfig_success [OF assms(3-6)] assms(7)
  have "newCheckout_field (body (fst (handle env now req))) = Some (v = ''true'')"
    by simp
  then show ?thesis by auto
qed

text \<open>
  Claim C5. On an authenticated \<open>GET /api/config\<close>, if any one of the three lookups
  fails, the response is 500 with the message of the first failure and carries no
  configuration value; and every response carries either all three values or none.
\<close>

theorem config_all_or_nothing:
  assumes "route req = GetConfig" and "authenticateToken env now req = Inr u"
  shows "(\<forall>client t.
            getAppConfigClient env = (Inr client, t) \<and>
            (isl (client ''PromoBanner/Text'') \<or> isl (client ''PromoBanner/Color'') \<or>
             isl (client ''Feature/NewCheckout'')) \<longrightarrow>
            status (fst (handle env now req)) = 500 \<and>
            config_values (body (fst (handle env now req))) = [] \<and>
            (\<exists>e. first_failure client
                    [''PromoBanner/Text'', ''PromoBanner/Color'', ''Feature/NewCheckout''] =
                    Some e \<and>
                 body (fst (handle env now req)) =
                   FailureBody ''Failed to load configuration'' (Some (message e)))) \<and>
         (config_values (body (fst (handle env now req))) = [] \<or>
          (\<exists>client t a b s.
             getAppConfigClient env = (Inr client, t) \<and>
             client ''PromoBanner/Text'' = Inr a \<and> client ''PromoBanner/Color'' = Inr b \<and>
             client ''Feature/NewCheckout'' = Inr s \<and>
             config_values (body (fst (handle env now req))) =
               [value a, value b, if value s = ''true'' then ''true'' else ''false'']))"
proof -
  have h: "handle env now req = getAllConfig env"
    by (rule handle_config [OF assms])
  have A: "status (fst (getAllConfig env)) = 500 \<and>
           config_values (body (fst (getAllConfig env))) = [] \<and>
           (\<exists>e. first_failure client
                   [''PromoBanner/Text'', ''PromoBanner/Color'', ''Feature/NewCheckout''] =
                   Some e \<and>
                body (fst (getAllConfig env)) =
                  FailureBody ''Failed to load configuration'' (Some (message e)))"
    if c: "getAppConfigClient env = (Inr client, t)"
      and f: "isl (client ''PromoBanner/Text'') \<or> isl (client ''PromoBanner/Color'') \<or>
              isl (client ''Feature/NewCheckout'')"
    for client t
  proof -
    from f obtain e where
      e: "first_failure client (keys_of GetConfig) = Some e"
      using first_failure_exists [of "keys_of GetConfig" client] by auto
    from getAllConfig_failure [OF c e] e show ?thesis
      by (simp add: config_failure_def)
  qed
  have B: "config_values (body (fst (getAllConfig env))) = [] \<or>
          (\<exists>client t a b s.
             getAppConfigClient env = (Inr client, t) \<and>
             client ''PromoBanner/Text'' = Inr a \<and> client ''PromoBanner/Color'' = Inr b \<and>
             client ''Feature/NewCheckout'' = Inr s \<and>
             config_values (body (fst (getAllConfig env))) =
               [value a, value b, if value s = ''true'' then ''true'' else ''false''])"
    using getAllConfig_cases [of env]
  proof
    assume "\<exists>e. upstream_error env (keys_of GetConfig) = Some e \<and>
                fst (getAllConfig env) = config_failure e"
    then show ?thesis by (auto simp: config_failure_def)
  next
    assume "\<exists>client t a b s. getAppConfigClient env = (Inr client, t) \<and>
        client ''PromoBanner/Text'' = Inr a \<and> client ''PromoBanner/Color'' = Inr b \<and>
        client ''Feature/NewCheckout'' = Inr s \<and>
        fst (getAllConfig env) =
          \<lparr>status = 200,
            body = ConfigBody (value a) (value b) (value s = ''true'')\<rparr>"
    then obtain client t a b s where
      "getAppConfigClient env = (Inr client, t)"
      "client ''PromoBanner/Text'' = Inr a" "client ''PromoBanner/Color'' = Inr b"
      "client ''Feature/NewCheckout'' = Inr s"
      "config_values (body (fst (getAllConfig env))) =
         [value a, value b, if value s = ''true'' then ''true'' else ''false'']"
      by auto
    then show ?thesis by blast
  qed
  from A B show ?thesis unfolding h by blast
qed

lemma lab_authenticated:
  "authenticateToken lab 2000 (bearer r lab_token) = Inr (payload lab_token)"
  by (simp add: authenticateToken_def bearer_def index_def jwt_verify_def JWT_SECRET_def
      lab_def lab_token_def property_def)

lemma lab_color_missing_authenticated:
  "authenticateToken lab_color_missing 2000 (bearer r lab_token) = Inr (payload lab_token)"
  by (simp add: authenticateToken_def bearer_def index_def jwt_verify_def JWT_SECRET_def
      lab_def lab_color_missing_def lab_token_def property_def)

lemma lab_rotated_authenticated:
  "authenticateToken lab_rotated 2000 (bearer r lab_token) = Inr (payload lab_token)"
  by (simp add: authenticateToken_def bearer_def index_def jwt_verify_def JWT_SECRET_def
      lab_def lab_rotated_def lab_token_def property_def)

lemma lab_vault_down_authenticated:
  "authenticateToken lab_vault_down 2000 (bearer r lab_token) = Inr (payload lab_token)"
  by (simp add: authenticateToken_def bearer_def index_def jwt_verify_def JWT_SECRET_def
      lab_def lab_vault_down_def lab_token_def property_def)

lemma route_bearer: "route (bearer r tok) = r"
  by (simp add: bearer_def)

lemma lab_client_resolved:
  "getAppConfigClient lab =
     (Inr lab_store,
      [GetSecret ''AppConfigConnectionString'',
       NewAppConfigurationClient ''Endpoint=https://lab.azconfig.io''])"
  by (simp add: getAppConfigClient_def lab_def lab_vault_def lab_client_def)

lemma lab_rotated_client_resolved:
  "getAppConfigClient lab_rotated =
     (Inr rotated_store,
      [GetSecret ''AppConfigConnectionString'',
       NewAppConfigurationClient ''Endpoint=https://rotated.azconfig.io''])"
  by (simp add: getAppConfigClient_def lab_rotated_def lab_def)

theorem newCheckout_exact_witness:
  "newCheckout_field (body (fst (handle lab 2000 (bearer GetConfig lab_token)))) = Some True \<and>
   newCheckout_field (body (fst (handle lab_rotated 2000 (bearer GetConfig lab_token)))) =
     Some False"
proof -
  have a: "newCheckout_field (body (fst (handle lab 2000 (bearer GetConfig lab_token)))) =
           Some (''true'' = ''true'')"
    using newCheckout_exact [OF route_bearer lab_authenticated lab_client_resolved,
        of _ _ _ "''true''"]
    by (simp add: lab_store_def)
  have b: "newCheckout_field
             (body (fst (handle lab_rotated 2000 (bearer GetConfig lab_token)))) =
           Some (''True'' = ''true'')"
    using newCheckout_exact [OF route_bearer lab_rotated_authenticated
        lab_rotated_client_resolved, of _ _ _ "''True''"]
    by (simp add: rotated_store_def lab_store_def)
  from a b show ?thesis by simp
qed


lemma lab_color_missing_client_resolved:
  "getAppConfigClient lab_color_missing =
     (Inr color_missing_store,
      [GetSecret ''AppConfigConnectionString'',
       NewAppConfigurationClient ''Endpoint=https://lab.azconfig.io''])"
  by (simp add: getAppConfigClient_def lab_color_missing_def lab_def lab_vault_def)

theorem config_all_or_nothing_witness:
  "route (bearer GetConfig lab_token) = GetConfig \<and>
   authenticateToken lab_color_missing 2000 (bearer GetConfig lab_token) =
     Inr (payload lab_token) \<and>
   isl (color_missing_store ''PromoBanner/Color'') \<and>
   status (fst (handle lab_color_missing 2000 (bearer GetConfig lab_token))) = 500 \<and>
   config_values (body (fst (handle lab_color_missing 2000 (bearer GetConfig lab_token)))) = [] \<and>
   body (fst (handle lab_color_missing 2000 (bearer GetConfig lab_token))) =
     FailureBody ''Failed to load configuration'' (Some ''Setting not found'')"
proof -
  have i: "isl (color_missing_store ''PromoBanner/Color'')"
    by (simp add: color_missing_store_def)
  have f: "first_failure color_missing_store
             [''PromoBanner/Text'', ''PromoBanner/Color'', ''Feature/NewCheckout''] =
           Some (Error ''Setting not found'')"
    by (simp add: color_missing_store_def lab_store_def)
  from config_all_or_nothing [OF route_bearer lab_color_missing_authenticated]
  have "status (fst (handle lab_color_missing 2000 (bearer GetConfig lab_token))) = 500 \<and>
        config_values (body (fst (handle lab_color_missing 2000 (bearer GetConfig lab_token)))) = [] \<and>
        (\<exists>e. first_failure color_missing_store
                [''PromoBanner/Text'', ''PromoBanner/Color'', ''Feature/NewCheckout''] =
                Some e \<and>
             body (fst (handle lab_color_missing 2000 (bearer GetConfig lab_token))) =
               FailureBody ''Failed to load configuration'' (Some (message e)))"
    using lab_color_missing_client_resolved i by blast
  with f i show ?thesis
    by (auto simp: route_bearer lab_color_missing_authenticated)
qed

subsection \<open>One setting by key\<close>

lemma getConfigByKey_resolved:
  assumes "getAppConfigClient env = (Inr client, t)"
  shows "getConfigByKey env k =
           ((case client k of
               Inl e \<Rightarrow> setting_failure e
             | Inr s \<Rightarrow>
                 \<lparr>status = 200, body = SettingBody (key s) (value s) (lastModified s)\<rparr>),
            t @ [GetConfigurationSetting k])"
  using assms by (simp add: getConfigByKey_def split: sum.splits)

lemma getConfigByKey_unresolved:
  assumes "getAppConfigClient env = (Inl e, t)"
  shows "getConfigByKey env k = (setting_failure e, t)"
  using assms by (simp add: getConfigByKey_def)

text \<open>
  Claim C6. On an authenticated \<open>GET /api/config/:key\<close> the key is taken from the
  caller with no allow-list. Once the settings client is obtained, exactly one lookup is
  made, for that key; if it succeeds, the entry's key, value and modification timestamp
  are returned verbatim with 200, and if it fails the response is 500. When the client
  cannot be obtained no lookup is made and the response is 500.
\<close>

theorem config_by_key_verbatim:
  assumes "route req = GetConfigKey k" and "authenticateToken env now req = Inr u"
  shows "(\<forall>client t. getAppConfigClient env = (Inr client, t) \<longrightarrow>
            filter is_lookup (snd (handle env now req)) = [GetConfigurationSetting k] \<and>
            (\<forall>s. client k = Inr s \<longrightarrow>
                 fst (handle env now req) =
                   \<lparr>status = 200,
                    body = SettingBody (key s) (value s) (lastModified s)\<rparr>) \<and>
            (\<forall>e. client k = Inl e \<longrightarrow>
                 fst (handle env now req) =
                   \<lparr>status = 500,
                    body = FailureBody ''Failed to load configuration setting''
                             (Some (message e))\<rparr>)) \<and>
         (\<forall>e t. getAppConfigClient env = (Inl e, t) \<longrightarrow>
            filter is_lookup (snd (handle env now req)) = [] \<and>
            fst (handle env now req) =
              \<lparr>status = 500,
               body = FailureBody ''Failed to load configuration setting''
                        (Some (message e))\<rparr>)"
proof -
  have h: "handle env now req = getConfigByKey env k"
    by (rule handle_config_key [OF assms])
  show ?thesis
    unfolding h
    by (auto simp: getConfigByKey_resolved getConfigByKey_unresolved setting_failure_def
        client_calls_no_lookup)
qed

theorem config_by_key_verbatim_witness:
  "route (bearer (GetConfigKey ''PromoBanner/Color'') lab_token) = GetConfigKey ''PromoBanner/Color'' \<and>
   authenticateToken lab 2000 (bearer (GetConfigKey ''PromoBanner/Color'') lab_token) =
     Inr (payload lab_token) \<and>
   filter is_lookup (snd (handle lab 2000 (bearer (GetConfigKey ''PromoBanner/Color'') lab_token))) =
     [GetConfigurationSetting ''PromoBanner/Color''] \<and>
   fst (handle lab 2000 (bearer (GetConfigKey ''PromoBanner/Color'') lab_token)) =
     \<lparr>status = 200,
      body = SettingBody ''PromoBanner/Color'' ''blue'' 1700000000001\<rparr>"
proof -
  have s: "lab_store ''PromoBanner/Color'' =
           Inr \<lparr>key = ''PromoBanner/Color'', value = ''blue'', lastModified = 1700000000001\<rparr>"
    by (simp add: lab_store_def)
  from config_by_key_verbatim [OF route_bearer lab_authenticated] lab_client_resolved
  have "filter is_lookup
          (snd (handle lab 2000 (bearer (GetConfigKey ''PromoBanner/Color'') lab_token))) =
        [GetConfigurationSetting ''PromoBanner/Color''] \<and>
        (\<forall>s. lab_store ''PromoBanner/Color'' = Inr s \<longrightarrow>
             fst (handle lab 2000 (bearer (GetConfigKey ''PromoBanner/Color'') lab_token)) =
               \<lparr>status = 200, body = SettingBody (key s) (value s) (lastModified s)\<rparr>)"
    by blast
  with s show ?thesis
    by (simp add: route_bearer lab_authenticated)
qed

text \<open>
  The failures, on the sample deployment: a key the store lacks, and the vault
  unreachable.
\<close>

lemma unknown_key_is_500:
  "authenticateToken lab 2000 (bearer (GetConfigKey ''UnknownKey'') lab_token) =
     Inr (payload lab_token) \<and>
   handle lab 2000 (bearer (GetConfigKey ''UnknownKey'') lab_token) =
     (\<lparr>status = 500,
       body = FailureBody ''Failed to load configuration setting''
                (Some ''Setting not found'')\<rparr>,
      [GetSecret ''AppConfigConnectionString'',
       NewAppConfigurationClient ''Endpoint=https://lab.azconfig.io'',
       GetConfigurationSetting ''UnknownKey'']) \<and>
   authenticateToken lab_vault_down 2000 (bearer (GetConfigKey ''PromoBanner/Text'') lab_token) =
     Inr (payload lab_token) \<and>
   handle lab_vault_down 2000 (bearer (GetConfigKey ''PromoBanner/Text'') lab_token) =
     (\<lparr>status = 500,
       body = FailureBody ''Failed to load configuration setting''
                (Some ''Vault unreachable'')\<rparr>,
      [GetSecret ''AppConfigConnectionString''])"
proof -
  have a: "handle lab 2000 (bearer (GetConfigKey ''UnknownKey'') lab_token) =
           getConfigByKey lab ''UnknownKey''"
    by (rule handle_config_key [OF route_bearer lab_authenticated])
  have b: "handle lab_vault_down 2000 (bearer (GetConfigKey ''PromoBanner/Text'') lab_token) =
           getConfigByKey lab_vault_down ''PromoBanner/Text''"
    by (rule handle_config_key [OF route_bearer lab_vault_down_authenticated])
  have c: "getAppConfigClient lab_vault_down =
           (Inl (Error ''Vault unreachable''), [GetSecret ''AppConfigConnectionString''])"
    by (simp add: getAppConfigClient_def lab_vault_down_def lab_def)
  show ?thesis
    unfolding a b
    by (simp add: lab_authenticated lab_vault_down_authenticated
        getConfigByKey_resolved [OF lab_client_resolved] getConfigByKey_unresolved [OF c]
        lab_store_def setting_failure_def)
qed



subsection \<open>The secret and the client\<close>

lemma serve_nth:
  "i < length rs \<Longrightarrow>
   serve rs ! i = (case rs ! i of (env, now, req) \<Rightarrow> handle env now req)"
proof (induction rs arbitrary: i)
  case Nil
  then show ?case by simp
next
  case (Cons r rs)
  then show ?case by (cases i) simp_all
qed

lemma getAllConfig_calls:
  "\<exists>rest. snd (getAllConfig env) = GetSecret ''AppConfigConnectionString'' # rest \<and>
     (case getSecret env ''AppConfigConnectionString'' of
        Inl e \<Rightarrow> rest = []
      | Inr v \<Rightarrow> \<exists>ls. rest = NewAppConfigurationClient v # ls \<and> list_all is_lookup ls)"
  by (simp add: getAllConfig_def getAppConfigClient_def split: sum.splits)

lemma getConfigByKey_calls:
  "\<exists>rest. snd (getConfigByKey env k) = GetSecret ''AppConfigConnectionString'' # rest \<and>
     (case getSecret env ''AppConfigConnectionString'' of
        Inl e \<Rightarrow> rest = []
      | Inr v \<Rightarrow> \<exists>ls. rest = NewAppConfigurationClient v # ls \<and> list_all is_lookup ls)"
  by (simp add: getConfigByKey_def getAppConfigClient_def split: sum.splits)

lemma legacy_calls:
  "\<exists>rest. snd (legacy env) = GetSecret ''AppConfigConnectionString'' # rest \<and>
     (case getSecret env ''AppConfigConnectionString'' of
        Inl e \<Rightarrow> rest = []
      | Inr v \<Rightarrow> \<exists>ls. rest = NewAppConfigurationClient v # ls \<and> list_all is_lookup ls)"
  by (simp add: legacy_def getAppConfigClient_def split: sum.splits)

lemma config_route_calls:
  assumes "config_route (route req)" and "authenticateToken env now req = Inr u"
  shows "\<exists>rest. snd (handle env now req) = GetSecret ''AppConfigConnectionString'' # rest \<and>
     (case getSecret env ''AppConfigConnectionString'' of
        Inl e \<Rightarrow> rest = []
      | Inr v \<Rightarrow> \<exists>ls. rest = NewAppConfigurationClient v # ls \<and> list_all is_lookup ls)"
proof (cases "route req")
  case GetConfig
  from handle_config [OF this assms(2)] getAllConfig_calls [of env] show ?thesis by simp
next
  case (GetConfigKey k)
  from handle_config_key [OF this assms(2)] getConfigByKey_calls [of env k]
  show ?thesis by simp
qed (use assms(1) in simp_all)

lemma lookups_after_client:
  assumes "t = GetSecret n # rest"
      and "case r of Inl e \<Rightarrow> rest = []
           | Inr v \<Rightarrow> \<exists>ls. rest = NewAppConfigurationClient v # ls \<and> list_all is_lookup ls"
      and "j < length t" and "is_lookup (t ! j)"
  shows "2 \<le> j \<and> (\<exists>v. r = Inr v \<and> t ! 1 = NewAppConfigurationClient v)"
proof (cases r)
  case (Inl e)
  with assms show ?thesis by simp
next
  case (Inr v)
  with assms(2) obtain ls where "rest = NewAppConfigurationClient v # ls" by auto
  with assms(1,3,4) Inr show ?thesis
    by (cases j; cases "j - 1") auto
qed

text \<open>
  Claim C7. In any sequence of requests, whatever came before, a request to
  \<open>GET /api/config\<close> or \<open>GET /api/config/:key\<close> that the gate lets through asks the
  secrets store for \<open>AppConfigConnectionString\<close> as its first call; when the secret
  resolves it builds a client from the value just read, and only then looks settings up;
  a request that the gate rejects calls nothing. So every settings lookup comes after a
  read of the secret and the construction of a client in the handling of the same
  request, from the value the secrets store holds at that time.
\<close>

theorem secret_resolved_on_every_request:
  assumes "i < length rs" and "rs ! i = (env, now, req)"
      and "config_route (route req)"
  shows "(case authenticateToken env now req of
            Inl res \<Rightarrow> snd (serve rs ! i) = []
          | Inr u \<Rightarrow>
              \<exists>rest.
                snd (serve rs ! i) = GetSecret ''AppConfigConnectionString'' # rest \<and>
                (case getSecret env ''AppConfigConnectionString'' of
                   Inl e \<Rightarrow> rest = []
                 | Inr v \<Rightarrow>
                     \<exists>ls. rest = NewAppConfigurationClient v # ls \<and>
                          list_all is_lookup ls)) \<and>
         (\<forall>j. j < length (snd (serve rs ! i)) \<and> is_lookup (snd (serve rs ! i) ! j) \<longrightarrow>
              2 \<le> j \<and>
              snd (serve rs ! i) ! 0 = GetSecret ''AppConfigConnectionString'' \<and>
              (\<exists>v. getSecret env ''AppConfigConnectionString'' = Inr v \<and>
                   snd (serve rs ! i) ! 1 = NewAppConfigurationClient v))"
proof -
  from serve_nth [OF assms(1)] assms(2)
  have s: "serve rs ! i = handle env now req" by simp
  from assms(3) have p: "protected (route req)"
    by (cases "route req") simp_all
  show ?thesis
  proof (cases "authenticateToken env now req")
    case (Inl res)
    from handle_rejected [OF p Inl] show ?thesis
      by (simp add: s Inl)
  next
    case (Inr u)
    from config_route_calls [OF assms(3) Inr] obtain rest where
      t: "snd (handle env now req) = GetSecret ''AppConfigConnectionString'' # rest"
      and r: "case getSecret env ''AppConfigConnectionString'' of
                Inl e \<Rightarrow> rest = []
              | Inr v \<Rightarrow> \<exists>ls. rest = NewAppConfigurationClient v # ls \<and>
                             list_all is_lookup ls"
      by blast
    have L: "\<forall>j. j < length (snd (handle env now req)) \<and>
                 is_lookup (snd (handle env now req) ! j) \<longrightarrow>
               2 \<le> j \<and>
               snd (handle env now req) ! 0 = GetSecret ''AppConfigConnectionString'' \<and>
               (\<exists>v. getSecret env ''AppConfigConnectionString'' = Inr v \<and>
                    snd (handle env now req) ! 1 = NewAppConfigurationClient v)"
    proof (intro allI impI)
      fix j
      assume j: "j < length (snd (handle env now req)) \<and>
                 is_lookup (snd (handle env now req) ! j)"
      then have "j < length (snd (handle env now req))"
        and "is_lookup (snd (handle env now req) ! j)"
        by simp_all
      from lookups_after_client [OF t r this] t
      show "2 \<le> j \<and>
            snd (handle env now req) ! 0 = GetSecret ''AppConfigConnectionString'' \<and>
            (\<exists>v. getSecret env ''AppConfigConnectionString'' = Inr v \<and>
                 snd (handle env now req) ! 1 = NewAppConfigurationClient v)"
        by simp
    qed
    show ?thesis
      unfolding s
    proof (intro conjI)
      from t r show "case authenticateToken env now req of
            Inl res \<Rightarrow> snd (handle env now req) = []
          | Inr u \<Rightarrow>
              \<exists>rest.
                snd (handle env now req) = GetSecret ''AppConfigConnectionString'' # rest \<and>
                (case getSecret env ''AppConfigConnectionString'' of
                   Inl e \<Rightarrow> rest = []
                 | Inr v \<Rightarrow>
                     \<exists>ls. rest = NewAppConfigurationClient v # ls \<and>
                          list_all is_lookup ls)"
        by (simp add: Inr)
    qed (rule L)
  qed
qed

theorem secret_resolved_on_every_request_witness:
  "(1::nat) < length two_requests \<and>
   two_requests ! 1 =
     (lab_rotated, 2000, bearer (GetConfigKey ''Feature/NewCheckout'') lab_token) \<and>
   config_route (route (bearer (GetConfigKey ''Feature/NewCheckout'') lab_token)) \<and>
   authenticateToken lab_rotated 2000
     (bearer (GetConfigKey ''Feature/NewCheckout'') lab_token) = Inr (payload lab_token) \<and>
   take 2 (snd (serve two_requests ! 1)) =
     [GetSecret ''AppConfigConnectionString'',
      NewAppConfigurationClient ''Endpoint=https://rotated.azconfig.io''] \<and>
   list_all is_lookup (drop 2 (snd (serve two_requests ! 1)))"
proof -
  have a: "(1::nat) < length two_requests" by (simp add: two_requests_def)
  have b: "two_requests ! 1 =
     (lab_rotated, 2000, bearer (GetConfigKey ''Feature/NewCheckout'') lab_token)"
    by (simp add: two_requests_def)
  have c: "config_route (route (bearer (GetConfigKey ''Feature/NewCheckout'') lab_token))"
    by (simp add: route_bearer)
  have s: "getSecret lab_rotated ''AppConfigConnectionString'' =
           Inr ''Endpoint=https://rotated.azconfig.io''"
    by (simp add: lab_rotated_def)
  from secret_resolved_on_every_request [OF a b c]
  obtain ls where
    "snd (serve two_requests ! 1) =
       GetSecret ''AppConfigConnectionString'' #
       NewAppConfigurationClient ''Endpoint=https://rotated.azconfig.io'' # ls"
    "list_all is_lookup ls"
    by (auto simp: s lab_rotated_authenticated)
  with a b c lab_rotated_authenticated show ?thesis by simp
qed

subsection \<open>Error responses\<close>

lemma getConfigByKey_500:
  assumes "status (fst (getConfigByKey env k)) = 500"
  shows "\<exists>e. upstream_error env [k] = Some e \<and>
             body (fst (getConfigByKey env k)) =
               FailureBody ''Failed to load configuration setting'' (Some (message e))"
proof (cases "getAppConfigClient env")
  case (Pair r t)
  show ?thesis
  proof (cases r)
    case (Inl e)
    with Pair show ?thesis
      by (simp add: upstream_error_def getConfigByKey_def setting_failure_def)
  next
    case (Inr client)
    with Pair assms show ?thesis
      by (cases "client k")
         (simp_all add: upstream_error_def getConfigByKey_def setting_failure_def)
  qed
qed

lemma getAllConfig_500:
  assumes "status (fst (getAllConfig env)) = 500"
  shows "\<exists>e. upstream_error env (keys_of GetConfig) = Some e \<and>
             body (fst (getAllConfig env)) =
               FailureBody ''Failed to load configuration'' (Some (message e))"
  using getAllConfig_cases [of env] assms
  by (auto simp: config_failure_def)

lemma login_500:
  "status (login env now uname pword) = 500 \<Longrightarrow>
   body (login env now uname pword) = ErrorBody ''Internal server error''"
  by (simp add: login_def split: if_splits option.splits sum.splits)

lemma JWT_SECRET_NODE_ENV: "JWT_SECRET (env\<lparr>env_NODE_ENV := x\<rparr>) = JWT_SECRET env"
  by (simp add: JWT_SECRET_def)

lemma session_token_NODE_ENV:
  "session_token (env\<lparr>env_NODE_ENV := x\<rparr>) now u = session_token env now u"
  by (simp add: session_token_def JWT_SECRET_NODE_ENV)

lemma authenticateToken_NODE_ENV:
  "authenticateToken (env\<lparr>env_NODE_ENV := x\<rparr>) now req = authenticateToken env now req"
  by (simp add: authenticateToken_presented JWT_SECRET_NODE_ENV split: option.splits)

lemma getAppConfigClient_NODE_ENV:
  "getAppConfigClient (env\<lparr>env_NODE_ENV := x\<rparr>) = getAppConfigClient env"
  by (simp add: getAppConfigClient_def split: sum.splits)

lemma login_NODE_ENV:
  "login (env\<lparr>env_NODE_ENV := x\<rparr>) now uname pword = login env now uname pword"
  by (simp add: login_def session_token_NODE_ENV split: option.splits sum.splits)

lemma getAllConfig_NODE_ENV: "getAllConfig (env\<lparr>env_NODE_ENV := x\<rparr>) = getAllConfig env"
  by (simp add: getAllConfig_def getAppConfigClient_NODE_ENV)

lemma getConfigByKey_NODE_ENV:
  "getConfigByKey (env\<lparr>env_NODE_ENV := x\<rparr>) k = getConfigByKey env k"
  by (simp add: getConfigByKey_def getAppConfigClient_NODE_ENV)

lemma legacy_NODE_ENV: "legacy (env\<lparr>env_NODE_ENV := x\<rparr>) = legacy env"
  by (simp add: legacy_def getAppConfigClient_NODE_ENV)

lemma handle_NODE_ENV:
  "handle (env\<lparr>env_NODE_ENV := x\<rparr>) now req = handle env now req"
  by (cases "route req")
     (simp_all add: handle_def authenticateToken_NODE_ENV getAllConfig_NODE_ENV
      getConfigByKey_NODE_ENV legacy_NODE_ENV login_NODE_ENV split: sum.splits)

text \<open>
  Claim C8, as the code has it. Every 500 of \<open>GET /api/config\<close> and of
  \<open>GET /api/config/:key\<close> carries, as \<open>details\<close>, the message of the upstream error
  that caused it, and no handler's response depends on \<open>NODE_ENV\<close>. The 500 of the
  login carries no details. The error handling middleware answers 500 with details only
  when \<open>NODE_ENV\<close> is \<open>development\<close>.
\<close>

theorem error_details_exposure:
  "(config_route (route req) \<and> status (fst (handle env now req)) = 500 \<longrightarrow>
      (\<exists>e. upstream_error env (keys_of (route req)) = Some e \<and>
           details (body (fst (handle env now req))) = Some (message e))) \<and>
   handle (env\<lparr>env_NODE_ENV := mode\<rparr>) now req = handle env now req \<and>
   (route req = PostLogin \<and> status (fst (handle env now req)) = 500 \<longrightarrow>
      body (fst (handle env now req)) = ErrorBody ''Internal server error'' \<and>
      details (body (fst (handle env now req))) = None) \<and>
   status (errorMiddleware env err) = 500 \<and>
   details (body (errorMiddleware env err)) =
     (if env_NODE_ENV env = Some ''development'' then Some (message err) else None)"
proof -
  have A: "\<exists>e. upstream_error env (keys_of (route req)) = Some e \<and>
             details (body (fst (handle env now req))) = Some (message e)"
    if c: "config_route (route req)" and s: "status (fst (handle env now req)) = 500"
  proof (cases "authenticateToken env now req")
    case (Inl res)
    from c have p: "protected (route req)" by (cases "route req") simp_all
    from handle_rejected [OF p Inl] have "fst (handle env now req) = res" by simp
    with authenticateToken_rejection [OF Inl] s show ?thesis
      by (simp split: if_splits)
  next
    case (Inr u)
    show ?thesis
    proof (cases "route req")
      case GetConfig
      from handle_config [OF this Inr] s getAllConfig_500 [of env] GetConfig
      show ?thesis by auto
    next
      case (GetConfigKey k)
      from handle_config_key [OF this Inr] s getConfigByKey_500 [of env k] GetConfigKey
      show ?thesis by auto
    qed (use c in simp_all)
  qed
  have B: "body (fst (handle env now req)) = ErrorBody ''Internal server error'' \<and>
           details (body (fst (handle env now req))) = None"
    if "route req = PostLogin" and "status (fst (handle env now req)) = 500"
    using that login_500 [of env now "body_username req" "body_password req"]
    by (simp add: handle_login)
  have C: "status (errorMiddleware env err) = 500 \<and>
           details (body (errorMiddleware env err)) =
             (if env_NODE_ENV env = Some ''development'' then Some (message err) else None)"
    by (simp add: errorMiddleware_def)
  from A B C handle_NODE_ENV [of mode env now req] show ?thesis by blast
qed


theorem error_details_exposure_witness:
  "config_route (route (bearer (GetConfigKey ''UnknownKey'') lab_token)) \<and>
   status (fst (handle lab 2000 (bearer (GetConfigKey ''UnknownKey'') lab_token))) = 500 \<and>
   details (body (fst (handle lab 2000 (bearer (GetConfigKey ''UnknownKey'') lab_token)))) =
     Some ''Setting not found'' \<and>
   route (credentials (Str ''demo@ltimindtree.com'') (Num 5)) = PostLogin \<and>
   status (fst (handle lab 2000 (credentials (Str ''demo@ltimindtree.com'') (Num 5)))) = 500 \<and>
   details (body (fst (handle lab 2000 (credentials (Str ''demo@ltimindtree.com'') (Num 5))))) =
     None"
proof -
  let ?r = "bearer (GetConfigKey ''UnknownKey'') lab_token"
  let ?l = "credentials (Str ''demo@ltimindtree.com'') (Num 5)"
  have c: "config_route (route ?r)" by (simp add: route_bearer)
  have h: "handle lab 2000 ?r = getConfigByKey lab ''UnknownKey''"
    by (rule handle_config_key [OF route_bearer lab_authenticated])
  have s: "status (fst (handle lab 2000 ?r)) = 500"
    unfolding h
    by (simp add: getConfigByKey_resolved [OF lab_client_resolved] lab_store_def
        setting_failure_def)
  have u: "upstream_error lab (keys_of (route ?r)) = Some (Error ''Setting not found'')"
    by (simp add: route_bearer upstream_error_def lab_client_resolved lab_store_def)
  have p: "route ?l = PostLogin" by (simp add: credentials_def)
  have q: "status (fst (handle lab 2000 ?l)) = 500"
    by (simp add: handle_def credentials_def login_def users_def lab_def lab_bcrypt_def)
  from error_details_exposure [of ?r lab 2000] c s u
  have 1: "details (body (fst (handle lab 2000 ?r))) = Some ''Setting not found''"
    by auto
  from error_details_exposure [of ?l lab 2000] p q
  have 2: "details (body (fst (handle lab 2000 ?l))) = None"
    by blast
  from c s 1 p q 2 show ?thesis by blast
qed

text \<open>
  The claim as stated has every 500 carry the error text. With \<open>NODE_ENV\<close> unset the
  middleware's 500 has no details, and neither has the 500 of a login whose password
  \<open>bcrypt.compare\<close> refuses.
\<close>

theorem details_withheld_counterexample:
  "status (errorMiddleware lab (Error ''boom'')) = 500 \<and>
   details (body (errorMiddleware lab (Error ''boom''))) = None \<and>
   fst (handle lab 2000 (credentials (Str ''demo@ltimindtree.com'') (Num 5))) =
     \<lparr>status = 500, body = ErrorBody ''Internal server error''\<rparr> \<and>
   details (ErrorBody ''Internal server error'') = None"
  by (simp add: errorMiddleware_def handle_def credentials_def login_def users_def lab_def
      lab_bcrypt_def)



subsection \<open>The legacy page\<close>

lemma legacy_success:
  assumes "getAppConfigClient env = (Inr client, t)"
      and "client ''PromoBanner/Text'' = Inr a" and "client ''PromoBanner/Color'' = Inr b"
      and "client ''Feature/NewCheckout'' = Inr s"
  shows "legacy env =
           (\<lparr>status = 200,
             body = Html (page (value b) (value a) (value s = ''true''))\<rparr>,
            t @ [GetConfigurationSetting ''PromoBanner/Text'',
                 GetConfigurationSetting ''PromoBanner/Color'',
                 GetConfigurationSetting ''Feature/NewCheckout''])"
  using assms by (simp add: legacy_def)

lemma config_200:
  assumes "route req = GetConfig"
      and "fst (handle env now req) = \<lparr>status = 200, body = ConfigBody text color flag\<rparr>"
  shows "\<exists>client t a b s.
           getAppConfigClient env = (Inr client, t) \<and>
           client ''PromoBanner/Text'' = Inr a \<and> client ''PromoBanner/Color'' = Inr b \<and>
           client ''Feature/NewCheckout'' = Inr s \<and>
           text = value a \<and> color = value b \<and> flag = (value s = ''true'') \<and>
           handle env now req = getAllConfig env"
proof (cases "authenticateToken env now req")
  case (Inl res)
  have "protected (route req)" by (simp add: assms(1))
  from handle_rejected [OF this Inl] assms(2)
  have r: "res = \<lparr>status = 200, body = ConfigBody text color flag\<rparr>" by simp
  from Inl show ?thesis
    unfolding r authenticateToken_presented
    by (simp split: option.splits if_splits sum.splits)
next
  case (Inr u)
  have h: "handle env now req = getAllConfig env"
    by (rule handle_config [OF assms(1) Inr])
  from getAllConfig_cases [of env] assms(2) show ?thesis
    unfolding h by (auto simp: config_failure_def)
qed

lemma page_markup:
  \<open>suffix ''background-color: '' page_before_color \<and>
   prefix '';'' page_between_color_and_text \<and>
   suffix ''<div class="banner">'' page_between_color_and_text \<and>
   prefix ''</div>'' page_between_text_and_flag \<and>
   suffix ''<p>New Checkout Feature: '' page_between_text_and_flag \<and>
   prefix ''</p>'' page_after_flag\<close>
  by (simp add: page_before_color_def page_between_color_and_text_def
      page_between_text_and_flag_def page_after_flag_def nl_def suffix_to_prefix)

lemma page_tells_flag: "page color banner True \<noteq> page color banner False"
  by (simp add: page_def checkout_label_def)

text \<open>
  Claim C9. \<open>GET /\<close> runs no authentication check: whatever the request carries, it
  is handled as a request with no header is, and its first act is the call to the secrets
  store. Whenever an authenticated \<open>GET /api/config\<close> returns the banner text, the
  banner colour and the checkout flag, \<open>GET /\<close> makes the same calls and returns the
  page that has the colour as the banner's \<open>background-color\<close>, the text as the content
  of the banner, and after \<open>New Checkout Feature:\<close> the word \<open>Enabled\<close> when the flag
  is true and \<open>Disabled\<close> when it is false.
\<close>

theorem legacy_page_unprotected:
  assumes "route req = GetRoot"
  shows \<open>(\<exists>rest. snd (handle env now req) = GetSecret ''AppConfigConnectionString'' # rest) \<and>
         handle env now req = handle env now (anonymous GetRoot) \<and>
         (\<forall>now' req' banner color flag.
            route req' = GetConfig \<and>
            fst (handle env now' req') =
              \<lparr>status = 200, body = ConfigBody banner color flag\<rparr> \<longrightarrow>
            handle env now req =
              (\<lparr>status = 200,
                body =
                  Html (page_before_color @ color @ page_between_color_and_text @ banner @
                       page_between_text_and_flag @
                       (if flag
                        then [CHR 0xC3, CHR 0xB0, CHR 0xC5, CHR 0xB8, CHR 0xC5, CHR 0xB8, CHR 0xC2, CHR 0xA2] @
                             '' Enabled''
                        else [CHR 0xC3, CHR 0xB0, CHR 0xC5, CHR 0xB8, CHR 0xE2, CHR 0x80, CHR 0x9D, CHR 0xC2, CHR 0xB4] @
                             '' Disabled'') @
                       page_after_flag)\<rparr>,
               snd (handle env now' req'))) \<and>
         suffix ''background-color: '' page_before_color \<and>
         prefix '';'' page_between_color_and_text \<and>
         suffix ''<div class="banner">'' page_between_color_and_text \<and>
         prefix ''</div>'' page_between_text_and_flag \<and>
         suffix ''<p>New Checkout Feature: '' page_between_text_and_flag \<and>
         prefix ''</p>'' page_after_flag\<close>
proof -
  have h: "handle env now req = legacy env"
    by (rule handle_root [OF assms])
  have a: "\<exists>rest. snd (legacy env) = GetSecret ''AppConfigConnectionString'' # rest"
    using legacy_calls [of env] by blast
  have b: "handle env now (anonymous GetRoot) = legacy env"
    by (simp add: handle_root anonymous_def)
  have c: "legacy env =
             (\<lparr>status = 200,
               body =
                 Html (page_before_color @ color @ page_between_color_and_text @ banner @
                       page_between_text_and_flag @
                       (if flag
                        then [CHR 0xC3, CHR 0xB0, CHR 0xC5, CHR 0xB8, CHR 0xC5, CHR 0xB8, CHR 0xC2, CHR 0xA2] @
                             '' Enabled''
                        else [CHR 0xC3, CHR 0xB0, CHR 0xC5, CHR 0xB8, CHR 0xE2, CHR 0x80, CHR 0x9D, CHR 0xC2, CHR 0xB4] @
                             '' Disabled'') @
                       page_after_flag)\<rparr>,
              snd (handle env now' req'))"
    if "route req' = GetConfig"
      and "fst (handle env now' req') = \<lparr>status = 200, body = ConfigBody banner color flag\<rparr>"
    for now' req' banner color flag
  proof -
    from config_200 [OF that] obtain client t a b s where
      r: "getAppConfigClient env = (Inr client, t)"
        "client ''PromoBanner/Text'' = Inr a" "client ''PromoBanner/Color'' = Inr b"
        "client ''Feature/NewCheckout'' = Inr s"
      and v: "banner = value a" "color = value b" "flag = (value s = ''true'')"
      and g: "handle env now' req' = getAllConfig env"
      by blast
    show ?thesis
      unfolding g v
      by (simp add: legacy_success [OF r] getAllConfig_success [OF r] page_def
          checkout_label_def)
  qed
  show ?thesis
    unfolding h b
  proof (intro conjI allI impI)
    show "\<exists>rest. snd (legacy env) = GetSecret ''AppConfigConnectionString'' # rest"
      by (rule a)
    show "legacy env = legacy env" ..
  next
    fix now' req' banner color flag
    assume "route req' = GetConfig \<and>
            fst (handle env now' req') =
              \<lparr>status = 200, body = ConfigBody banner color flag\<rparr>"
    then show "legacy env =
                 (\<lparr>status = 200,
                   body =
                     Html (page_before_color @ color @ page_between_color_and_text @ banner @
                       page_between_text_and_flag @
                       (if flag
                        then [CHR 0xC3, CHR 0xB0, CHR 0xC5, CHR 0xB8, CHR 0xC5, CHR 0xB8, CHR 0xC2, CHR 0xA2] @
                             '' Enabled''
                        else [CHR 0xC3, CHR 0xB0, CHR 0xC5, CHR 0xB8, CHR 0xE2, CHR 0x80, CHR 0x9D, CHR 0xC2, CHR 0xB4] @
                             '' Disabled'') @
                       page_after_flag)\<rparr>,
                  snd (handle env now' req'))"
      using c by blast
  qed (simp_all add: page_markup)
qed

theorem legacy_page_unprotected_witness:
  "route (anonymous GetRoot) = GetRoot \<and>
   \<not> carries_valid_token lab 2000 (anonymous GetRoot) \<and>
   route (bearer GetConfig lab_token) = GetConfig \<and>
   handle lab 2000 (bearer GetConfig lab_token) =
     (\<lparr>status = 200, body = ConfigBody ''Summer Sale - 50% Off!'' ''blue'' True\<rparr>,
      [GetSecret ''AppConfigConnectionString'',
       NewAppConfigurationClient ''Endpoint=https://lab.azconfig.io'',
       GetConfigurationSetting ''PromoBanner/Text'',
       GetConfigurationSetting ''PromoBanner/Color'',
       GetConfigurationSetting ''Feature/NewCheckout'']) \<and>
   handle lab 2000 (anonymous GetRoot) =
     (\<lparr>status = 200,
       body = Html (page_before_color @ ''blue'' @ page_between_color_and_text @
                    ''Summer Sale - 50% Off!'' @ page_between_text_and_flag @
                    [CHR 0xC3, CHR 0xB0, CHR 0xC5, CHR 0xB8, CHR 0xC5, CHR 0xB8, CHR 0xC2, CHR 0xA2] @
                    '' Enabled'' @ page_after_flag)\<rparr>,
      [GetSecret ''AppConfigConnectionString'',
       NewAppConfigurationClient ''Endpoint=https://lab.azconfig.io'',
       GetConfigurationSetting ''PromoBanner/Text'',
       GetConfigurationSetting ''PromoBanner/Color'',
       GetConfigurationSetting ''Feature/NewCheckout''])"
proof -
  have r: "route (anonymous GetRoot) = GetRoot" by (simp add: anonymous_def)
  have n: "\<not> carries_valid_token lab 2000 (anonymous GetRoot)"
    by (simp add: carries_valid_token_def presented_token_def anonymous_def)
  have h: "handle lab 2000 (bearer GetConfig lab_token) = getAllConfig lab"
    by (rule handle_config [OF route_bearer lab_authenticated])
  have g: "handle lab 2000 (bearer GetConfig lab_token) =
     (\<lparr>status = 200, body = ConfigBody ''Summer Sale - 50% Off!'' ''blue'' True\<rparr>,
      [GetSecret ''AppConfigConnectionString'',
       NewAppConfigurationClient ''Endpoint=https://lab.azconfig.io'',
       GetConfigurationSetting ''PromoBanner/Text'',
       GetConfigurationSetting ''PromoBanner/Color'',
       GetConfigurationSetting ''Feature/NewCheckout''])"
    unfolding h
    by (simp add: getAllConfig_def lab_client_resolved lab_store_def)
  from legacy_page_unprotected [OF r, of lab 2000]
  have "route (bearer GetConfig lab_token) = GetConfig \<and>
        fst (handle lab 2000 (bearer GetConfig lab_token)) =
          \<lparr>status = 200, body = ConfigBody ''Summer Sale - 50% Off!'' ''blue'' True\<rparr> \<longrightarrow>
        handle lab 2000 (anonymous GetRoot) =
          (\<lparr>status = 200,
            body = Html (page_before_color @ ''blue'' @ page_between_color_and_text @
                         ''Summer Sale - 50% Off!'' @ page_between_text_and_flag @
                         (if True
                          then [CHR 0xC3, CHR 0xB0, CHR 0xC5, CHR 0xB8, CHR 0xC5, CHR 0xB8, CHR 0xC2, CHR 0xA2] @
                               '' Enabled''
                          else [CHR 0xC3, CHR 0xB0, CHR 0xC5, CHR 0xB8, CHR 0xE2, CHR 0x80, CHR 0x9D, CHR 0xC2, CHR 0xB4] @
                               '' Disabled'') @
                         page_after_flag)\<rparr>,
           snd (handle lab 2000 (bearer GetConfig lab_token)))"
    by blast
  with g have "handle lab 2000 (anonymous GetRoot) =
          (\<lparr>status = 200,
            body = Html (page_before_color @ ''blue'' @ page_between_color_and_text @
                         ''Summer Sale - 50% Off!'' @ page_between_text_and_flag @
                         [CHR 0xC3, CHR 0xB0, CHR 0xC5, CHR 0xB8, CHR 0xC5, CHR 0xB8, CHR 0xC2, CHR 0xA2] @
                         '' Enabled'' @ page_after_flag)\<rparr>,
           snd (handle lab 2000 (bearer GetConfig lab_token)))"
    by (simp add: route_bearer)
  with g r n show ?thesis by (simp add: route_bearer)
qed

end
